theory Spec2Isabelle
  imports Main "HOL-Library.AList"
begin

section \<open>Values and errors\<close>

text \<open>
  The generator \<^verbatim>\<open>python_json.babelg.py\<close> emits one Python class per struct and per
  union of a schema. The development below embeds the emitted classes: every emitted
  method is a HOL function of the type descriptor it was generated from and of the
  instance it runs on.

  Python values. A wire value is what a JSON parser returns: \<open>None\<close>, a boolean, an
  integer, a string, a list or a dictionary with string keys (an association list, read
  with \<open>map_of\<close>). An instance of a generated struct class carries, for every field
  \<open>f\<close>, the attribute \<open>_f\<close> (the value) and the attribute \<open>__has_f\<close> (the set flag); an
  instance of a generated union class carries \<open>__tag\<close> and one attribute \<open>_f\<close> per
  payload variant. Attributes are total functions of the field name, as only the
  attributes of the class's own fields are ever read.
\<close>

datatype pyval =
    PNone
  | PBool bool
  | PInt int
  | PStr string
  | PList "pyval list"
  | PDict "(string \<times> pyval) list"
  | StructObj string "string \<Rightarrow> pyval" "string \<Rightarrow> bool"
  | UnionObj string "string option" "string \<Rightarrow> pyval"

text \<open>
  Exceptions, named after the error kinds of the specification. The generated code raises
  \<open>KeyError("Unknown key: ...")\<close>, \<open>KeyError("missing required field ...")\<close>,
  \<open>KeyError("tag ... not set")\<close>, \<open>KeyError("Union can only have one key set not ...")\<close>
  and \<open>TypeError\<close>; Python itself raises \<open>TypeError\<close>, \<open>AttributeError\<close>, \<open>KeyError\<close>
  (a subscript with a missing key) and \<open>IndexError\<close>; the
  validators raise \<open>ValueError\<close> (\<open>TypeMismatch\<close>, \<open>RangeError\<close>).
\<close>

datatype error =
    UnknownField pyval
  | MissingRequiredField string
  | TagNotSetError string
  | AmbiguousUnionPayload nat
  | TypeError
  | AttributeError
  | KeyError string
  | IndexError
  | TypeMismatch
  | RangeError

section \<open>Primitive validators\<close>

text \<open>
  The validator classes (\<open>Int32\<close>, \<open>UInt32\<close>, \<open>Int64\<close>, \<open>UInt64\<close>, \<open>Null\<close>) are imported by
  the generator and exercised by \<^verbatim>\<open>test_babel_internal.py\<close>; their module is not among
  the sources.
\<close>

datatype int_kind = Int32 | UInt32 | Int64 | UInt64

text \<open>Modelled from the spec: the natural range of each integer kind (the validator
  classes are missing from the sources).\<close>

fun minimum :: "int_kind \<Rightarrow> int" where
  "minimum Int32 = - (2 ^ 31)"
| "minimum UInt32 = 0"
| "minimum Int64 = - (2 ^ 63)"
| "minimum UInt64 = 0"

text \<open>Modelled from the spec: the upper end of the natural range (the validator classes
  are missing from the sources).\<close>

fun maximum :: "int_kind \<Rightarrow> int" where
  "maximum Int32 = 2 ^ 31 - 1"
| "maximum UInt32 = 2 ^ 32 - 1"
| "maximum Int64 = 2 ^ 63 - 1"
| "maximum UInt64 = 2 ^ 64 - 1"

text \<open>Modelled from the spec: a primitive validator is an integer kind with optional
  \<open>min_value\<close> and \<open>max_value\<close>, or the null kind (the validator classes are missing from
  the sources).\<close>

datatype primitive = IntegerType int_kind "int option" "int option" | NullType

text \<open>Modelled from the spec: the bounds default to the kind's natural range (the
  validator classes are missing from the sources).\<close>

fun min_value :: "primitive \<Rightarrow> int" where
  "min_value (IntegerType k lo hi) = (case lo of None \<Rightarrow> minimum k | Some m \<Rightarrow> m)"
| "min_value NullType = 0"

text \<open>Modelled from the spec: see \<open>min_value\<close> (the validator classes are missing from
  the sources).\<close>

fun max_value :: "primitive \<Rightarrow> int" where
  "max_value (IntegerType k lo hi) = (case hi of None \<Rightarrow> maximum k | Some m \<Rightarrow> m)"
| "max_value NullType = 0"

text \<open>Modelled from the spec: \<open>check(value) -> value | fails\<close>. A value of the wrong
  runtime kind fails with \<open>TypeMismatch\<close>, an integer outside \<open>[min_value, max_value]\<close>
  with \<open>RangeError\<close>; the null validator accepts \<open>None\<close> only (the validator classes are
  missing from the sources).\<close>

fun check :: "primitive \<Rightarrow> pyval \<Rightarrow> error + pyval" where
  "check (IntegerType k lo hi) (PInt n) =
     (if min_value (IntegerType k lo hi) \<le> n \<and> n \<le> max_value (IntegerType k lo hi)
      then Inr (PInt n) else Inl RangeError)"
| "check (IntegerType k lo hi) v = Inl TypeMismatch"
| "check NullType PNone = Inr PNone"
| "check NullType v = Inl TypeMismatch"

section \<open>Type descriptors\<close>

text \<open>
  The schema the generator reads. A field's data type is a primitive validator (of a
  type \<open>'p\<close> the generator does not look into) or a composite type; a composite type is
  a struct with its fields or a union with its variants; a union variant is a
  \<open>SymbolField\<close> (a bare tag) or a field of composite type (\<open>_generate_union_class\<close>
  raises \<open>ValueError\<close> for any other variant, so no class exists for it). A field has a
  name, a data type, the \<open>optional\<close> flag, \<open>has_default\<close> and \<open>default\<close>.

  Names are taken as the generator formats them (\<open>format_variable\<close>, \<open>format_method\<close>
  and \<open>format_class\<close> leave a lower-case identifier as it is), and a class is known by
  the name of its type. The types described here extend no other type, so that
  \<open>all_fields\<close> is \<open>fields\<close>.
\<close>

datatype 'p data_type =
    Primitive 'p
  | Composite "'p composite"
and 'p composite =
    Struct string "'p field list"
  | Union string "'p variant list"
and 'p field =
    Field string "'p data_type" bool bool pyval
and 'p variant =
    SymbolField string
  | VariantField string "'p composite"

fun field_name :: "'p field \<Rightarrow> string" where
  "field_name (Field n dt opt dflt d) = n"

fun field_data_type :: "'p field \<Rightarrow> 'p data_type" where
  "field_data_type (Field n dt opt dflt d) = dt"

fun optional :: "'p field \<Rightarrow> bool" where
  "optional (Field n dt opt dflt d) = opt"

fun has_default :: "'p field \<Rightarrow> bool" where
  "has_default (Field n dt opt dflt d) = dflt"

fun field_default :: "'p field \<Rightarrow> pyval" where
  "field_default (Field n dt opt dflt d) = d"

fun composite_name :: "'p composite \<Rightarrow> string" where
  "composite_name (Struct n fs) = n"
| "composite_name (Union n vs) = n"

fun variant_name :: "'p variant \<Rightarrow> string" where
  "variant_name (SymbolField n) = n"
| "variant_name (VariantField n c) = n"

fun is_composite_type :: "'p data_type \<Rightarrow> bool" where
  "is_composite_type (Composite c) = True"
| "is_composite_type (Primitive p) = False"

text \<open>Modelled from the spec: \<open>all_required_fields\<close>, a property of the struct
  descriptor whose class is missing from the sources, is the fields that are not
  optional, in declared order.\<close>

definition all_required_fields :: "'p field list \<Rightarrow> 'p field list" where
  "all_required_fields fs = filter (\<lambda>f. \<not> optional f) fs"

text \<open>Modelled from the spec: \<open>all_optional_fields\<close>, a property of the struct
  descriptor whose class is missing from the sources, is the optional fields, in declared
  order.\<close>

definition all_optional_fields :: "'p field list \<Rightarrow> 'p field list" where
  "all_optional_fields fs = filter optional fs"

text \<open>
  The runtime the emitted module runs against, none of it among the sources: the
  validator objects of \<open>babel_data_types\<close>, whose \<open>validate(val)\<close> the setters call
  (\<open>None\<close>: it returns, \<open>Some e\<close>: it raises \<open>e\<close>), and the \<open>transformer\<close> passed to
  \<open>from_dict\<close> and \<open>to_dict\<close>. They are parameters of the model.
\<close>

record 'p runtime =
  dt_validate :: "'p \<Rightarrow> pyval \<Rightarrow> error option"
  convert_from :: "'p \<Rightarrow> pyval \<Rightarrow> error + pyval"
  convert_to :: "'p \<Rightarrow> pyval \<Rightarrow> error + pyval"

section \<open>The generated struct class\<close>

text \<open>
  This section and the next embed the class emitted for a type that extends no other
  type: one class, so one name for every \<open>__has_f\<close> and for \<open>__tag\<close>, and an instance
  holds a value and a flag per field name. The class emitted for a type with a super type
  is embedded further down, with what ties the two together.

  \<open>__init__\<close>: every \<open>_f\<close> is \<open>None\<close> and every \<open>__has_f\<close> is \<open>False\<close>.
\<close>

definition struct_init :: "string \<Rightarrow> pyval" where
  "struct_init n = StructObj n (\<lambda>_. PNone) (\<lambda>_. False)"

fun has_flag :: "pyval \<Rightarrow> string \<Rightarrow> bool" where
  "has_flag (StructObj c v h) n = h n"
| "has_flag x n = False"

fun slot_value :: "pyval \<Rightarrow> string \<Rightarrow> pyval" where
  "slot_value (StructObj c v h) n = v n"
| "slot_value (UnionObj c t v) n = v n"
| "slot_value x n = PNone"

fun isinstance :: "pyval \<Rightarrow> string \<Rightarrow> bool" where
  "isinstance (StructObj c v h) n = (c = n)"
| "isinstance (UnionObj c t v) n = (c = n)"
| "isinstance x n = False"

text \<open>
  \<open>validate\<close> of a struct class is \<open>return all([self.__has_f, ...])\<close> over
  \<open>all_required_fields\<close>; \<open>validate\<close> of a union class is
  \<open>return self.__tag is not None\<close>.
\<close>

fun validate :: "'p composite \<Rightarrow> pyval \<Rightarrow> bool" where
  "validate (Struct n fs) (StructObj c v h) =
     list_all (\<lambda>f. h (field_name f)) (all_required_fields fs)"
| "validate (Union n vs) (UnionObj c t v) = (t \<noteq> None)"
| "validate T x = False"

text \<open>
  The statement a generated function body ends in. A body whose last statement is an
  expression statement runs off its end, and the call returns \<open>None\<close>.
\<close>

datatype stmt = Return pyval | Expr pyval | Raise error

fun exec_stmt :: "stmt \<Rightarrow> error + pyval" where
  "exec_stmt (Return v) = Inr v"
| "exec_stmt (Expr v) = Inr PNone"
| "exec_stmt (Raise e) = Inl e"

text \<open>
  The getter of a field is \<open>if self.__has_f: return self._f\<close> followed by an \<open>else\<close>
  branch that depends on the field: for an optional field with a default the generator
  emits the line \<open>format_obj(field.default)\<close>, the default's literal alone; for an
  optional field without one, \<open>return None\<close>; for a required field,
  \<open>raise KeyError("missing required field ...")\<close>.
\<close>

definition getter_else :: "'p field \<Rightarrow> stmt" where
  "getter_else f =
     (if optional f then
        (if has_default f then Expr (field_default f) else Return PNone)
      else Raise (MissingRequiredField (field_name f)))"

fun getter :: "'p field \<Rightarrow> pyval \<Rightarrow> error + pyval" where
  "getter f (StructObj c v h) =
     (if h (field_name f) then Inr (v (field_name f)) else exec_stmt (getter_else f))"
| "getter f x = Inl AttributeError"

text \<open>
  The setter of a field of composite type raises \<open>TypeError\<close> unless
  \<open>isinstance(val, Class)\<close>, then calls \<open>val.validate()\<close> and drops its result; the
  setter of a primitive field calls the validator's \<open>validate(val)\<close>. Then
  \<open>self._f = val\<close> and \<open>self.__has_f = True\<close>.
\<close>

fun store :: "pyval \<Rightarrow> string \<Rightarrow> pyval \<Rightarrow> error + pyval" where
  "store (StructObj c v h) n val = Inr (StructObj c (v(n := val)) (h(n := True)))"
| "store x n val = Inl AttributeError"

fun setter_guard :: "'p runtime \<Rightarrow> 'p data_type \<Rightarrow> pyval \<Rightarrow> error option" where
  "setter_guard rt (Composite T) val =
     (if \<not> isinstance val (composite_name T) then Some TypeError else None)"
| "setter_guard rt (Primitive p) val = dt_validate rt p val"

definition setter :: "'p runtime \<Rightarrow> 'p field \<Rightarrow> pyval \<Rightarrow> pyval \<Rightarrow> error + pyval" where
  "setter rt f self val =
     (case setter_guard rt (field_data_type f) val of
        Some e \<Rightarrow> Inl e
      | None \<Rightarrow> store self (field_name f) val)"

text \<open>
  The deleter is emitted as \<open>def f(self, val):\<close> with the body \<open>self._f = None\<close>,
  \<open>self.__has_f = False\<close>. The statement \<open>del x.f\<close> calls a property's deleter with the
  instance alone, so the call of this two-parameter function raises \<open>TypeError\<close> before
  its body runs.
\<close>

definition deleter_params :: "string list" where
  "deleter_params = [''self'', ''val'']"

fun deleter_body :: "'p field \<Rightarrow> pyval \<Rightarrow> error + pyval" where
  "deleter_body f (StructObj c v h) =
     Inr (StructObj c (v(field_name f := PNone)) (h(field_name f := False)))"
| "deleter_body f x = Inl AttributeError"

definition py_del :: "'p field \<Rightarrow> pyval \<Rightarrow> error + pyval" where
  "py_del f self =
     (if length deleter_params = 1 then deleter_body f self else Inl TypeError)"

section \<open>The generated union class\<close>

text \<open>
  \<open>__init__\<close> sets every \<open>_f\<close> and \<open>__tag\<close> to \<open>None\<close>; \<open>is_f\<close> is
  \<open>return self.__tag == 'f'\<close>; \<open>set_f\<close> of a symbol variant is \<open>self.__tag = 'f'\<close>; the
  getter of a payload variant raises \<open>KeyError("tag 'f' not set")\<close> unless \<open>is_f()\<close>; its
  setter raises \<open>TypeError\<close> unless \<open>isinstance(val, Class)\<close>, calls \<open>val.validate()\<close>
  and drops the result, then \<open>self._f = val\<close> and \<open>self.__tag = 'f'\<close>.
\<close>

definition union_init :: "string \<Rightarrow> pyval" where
  "union_init n = UnionObj n None (\<lambda>_. PNone)"

fun is_tag :: "string \<Rightarrow> pyval \<Rightarrow> bool" where
  "is_tag f (UnionObj c t v) = (t = Some f)"
| "is_tag f x = False"

fun set_symbol :: "string \<Rightarrow> pyval \<Rightarrow> error + pyval" where
  "set_symbol f (UnionObj c t v) = Inr (UnionObj c (Some f) v)"
| "set_symbol f x = Inl AttributeError"

fun union_getter :: "string \<Rightarrow> pyval \<Rightarrow> error + pyval" where
  "union_getter f (UnionObj c t v) =
     (if \<not> is_tag f (UnionObj c t v) then Inl (TagNotSetError f) else Inr (v f))"
| "union_getter f x = Inl AttributeError"

fun union_setter :: "string \<Rightarrow> 'p composite \<Rightarrow> pyval \<Rightarrow> pyval \<Rightarrow> error + pyval" where
  "union_setter f T (UnionObj c t v) val =
     (if \<not> isinstance val (composite_name T) then Inl TypeError
      else Inr (UnionObj c (Some f) (v(f := val))))"
| "union_setter f T x val = Inl AttributeError"

section \<open>Python operations on a wire value\<close>

text \<open>
  \<open>for key in obj\<close> walks the keys of a dictionary, the characters of a string and the
  items of a list; any other value is not iterable.
\<close>

fun py_iter :: "pyval \<Rightarrow> error + pyval list" where
  "py_iter (PDict d) = Inr (map (\<lambda>kv. PStr (fst kv)) d)"
| "py_iter (PStr s) = Inr (map (\<lambda>c. PStr [c]) s)"
| "py_iter (PList xs) = Inr xs"
| "py_iter x = Inl TypeError"

fun hashable :: "pyval \<Rightarrow> bool" where
  "hashable (PList xs) = False"
| "hashable (PDict d) = False"
| "hashable x = True"

fun in_fields :: "pyval \<Rightarrow> string list \<Rightarrow> bool" where
  "in_fields (PStr k) names = (k \<in> set names)"
| "in_fields x names = False"

text \<open>
  The first loop of a struct's \<open>from_dict\<close>:
  \<open>for key in obj: if key not in cls.__fields: raise KeyError("Unknown key: %r" % key)\<close>.
  Membership in the set \<open>__fields\<close> hashes the key first.
\<close>

fun check_keys :: "string list \<Rightarrow> pyval list \<Rightarrow> error option" where
  "check_keys names [] = None"
| "check_keys names (k # ks) =
     (if \<not> hashable k then Some TypeError
      else if \<not> in_fields k names then Some (UnknownField k)
      else check_keys names ks)"

text \<open>\<open>obj.get(k)\<close>: only a dictionary has the method.\<close>

fun py_get :: "pyval \<Rightarrow> string \<Rightarrow> error + pyval" where
  "py_get (PDict d) k = Inr (case map_of d k of None \<Rightarrow> PNone | Some w \<Rightarrow> w)"
| "py_get x k = Inl AttributeError"

fun substring :: "string \<Rightarrow> string \<Rightarrow> bool" where
  "substring k [] = (k = [])"
| "substring k (c # s) = (take (length k) (c # s) = k \<or> substring k s)"

text \<open>\<open>k in obj\<close>: a key of a dictionary, a substring of a string, an item of a list.\<close>

fun py_contains :: "pyval \<Rightarrow> string \<Rightarrow> error + bool" where
  "py_contains (PDict d) k = Inr (k \<in> set (map fst d))"
| "py_contains (PStr s) k = Inr (substring k s)"
| "py_contains (PList xs) k = Inr (PStr k \<in> set xs)"
| "py_contains x k = Inl TypeError"

text \<open>\<open>obj[k]\<close> with a string \<open>k\<close>.\<close>

fun py_getitem :: "pyval \<Rightarrow> string \<Rightarrow> error + pyval" where
  "py_getitem (PDict d) k = (case map_of d k of None \<Rightarrow> Inl (KeyError k) | Some w \<Rightarrow> Inr w)"
| "py_getitem x k = Inl TypeError"

fun is_dict :: "pyval \<Rightarrow> bool" where
  "is_dict (PDict d) = True"
| "is_dict x = False"

fun len :: "pyval \<Rightarrow> nat" where
  "len (PDict d) = length d"
| "len x = 0"

text \<open>\<open>obj.keys()[0]\<close> of a dictionary (a list of keys, in Python 2).\<close>

fun first_key :: "pyval \<Rightarrow> error + string" where
  "first_key (PDict ((k, w) # d)) = Inr k"
| "first_key (PDict []) = Inl IndexError"
| "first_key x = Inl AttributeError"

section \<open>Decoding: \<open>from_dict\<close>\<close>

text \<open>
  A struct's \<open>from_dict(cls, transformer, obj)\<close> rejects unknown keys, builds a fresh
  instance, and then, for each field of \<open>all_fields\<close> in order, emits one of four
  blocks:
  \<^item> optional, composite: \<open>if obj.get('f') is not None: x.f = F.from_dict(transformer, obj['f'])\<close>;
  \<^item> optional, primitive: \<open>x.f = transformer.convert_from(x.__f_data_type, obj.get('f'))\<close>;
  \<^item> required: \<open>if 'f' not in obj: raise KeyError("missing required field 'f'")\<close>, then
    the assignment from \<open>obj['f']\<close>, through \<open>F.from_dict\<close> or \<open>convert_from\<close>.

  A union's \<open>from_dict\<close> builds a fresh instance, raises
  \<open>KeyError("Union can only have one key set not %d")\<close> when \<open>obj\<close> is a dictionary whose
  length is not one, then runs one \<open>if\<close> per variant: \<open>if obj == 'f': u.set_f()\<close> for a
  symbol, \<open>if isinstance(obj, dict) and 'f' == obj.keys()[0]: u.f = F.from_dict(...)\<close>
  for a payload variant; and returns the instance.
\<close>

fun from_dict :: "'p runtime \<Rightarrow> 'p composite \<Rightarrow> pyval \<Rightarrow> error + pyval"
and from_fields :: "'p runtime \<Rightarrow> 'p field list \<Rightarrow> pyval \<Rightarrow> pyval \<Rightarrow> error + pyval"
and from_field :: "'p runtime \<Rightarrow> 'p field \<Rightarrow> pyval \<Rightarrow> pyval \<Rightarrow> error + pyval"
and from_variants :: "'p runtime \<Rightarrow> 'p variant list \<Rightarrow> pyval \<Rightarrow> pyval \<Rightarrow> error + pyval"
where
  "from_dict rt (Struct n fs) obj =
     (case py_iter obj of
        Inl e \<Rightarrow> Inl e
      | Inr keys \<Rightarrow>
          (case check_keys (map field_name fs) keys of
             Some e \<Rightarrow> Inl e
           | None \<Rightarrow> from_fields rt fs obj (struct_init n)))"
| "from_dict rt (Union n vs) obj =
     (if is_dict obj \<and> len obj \<noteq> 1 then Inl (AmbiguousUnionPayload (len obj))
      else from_variants rt vs obj (union_init n))"
| "from_fields rt [] obj x = Inr x"
| "from_fields rt (f # fs) obj x =
     (case from_field rt f obj x of
        Inl e \<Rightarrow> Inl e
      | Inr x' \<Rightarrow> from_fields rt fs obj x')"
| "from_field rt (Field n (Composite T) opt dflt d) obj x =
     (if opt then
        (case py_get obj n of
           Inl e \<Rightarrow> Inl e
         | Inr g \<Rightarrow>
             if g \<noteq> PNone then
               (case py_getitem obj n of
                  Inl e \<Rightarrow> Inl e
                | Inr w \<Rightarrow>
                    (case from_dict rt T w of
                       Inl e \<Rightarrow> Inl e
                     | Inr val \<Rightarrow> setter rt (Field n (Composite T) opt dflt d) x val))
             else Inr x)
      else
        (case py_contains obj n of
           Inl e \<Rightarrow> Inl e
         | Inr present \<Rightarrow>
             if \<not> present then Inl (MissingRequiredField n)
             else
               (case py_getitem obj n of
                  Inl e \<Rightarrow> Inl e
                | Inr w \<Rightarrow>
                    (case from_dict rt T w of
                       Inl e \<Rightarrow> Inl e
                     | Inr val \<Rightarrow> setter rt (Field n (Composite T) opt dflt d) x val))))"
| "from_field rt (Field n (Primitive p) opt dflt d) obj x =
     (if opt then
        (case py_get obj n of
           Inl e \<Rightarrow> Inl e
         | Inr g \<Rightarrow>
             (case convert_from rt p g of
                Inl e \<Rightarrow> Inl e
              | Inr val \<Rightarrow> setter rt (Field n (Primitive p) opt dflt d) x val))
      else
        (case py_contains obj n of
           Inl e \<Rightarrow> Inl e
         | Inr present \<Rightarrow>
             if \<not> present then Inl (MissingRequiredField n)
             else
               (case py_getitem obj n of
                  Inl e \<Rightarrow> Inl e
                | Inr w \<Rightarrow>
                    (case convert_from rt p w of
                       Inl e \<Rightarrow> Inl e
                     | Inr val \<Rightarrow> setter rt (Field n (Primitive p) opt dflt d) x val))))"
| "from_variants rt [] obj u = Inr u"
| "from_variants rt (SymbolField f # vs) obj u =
     (if obj = PStr f then
        (case set_symbol f u of
           Inl e \<Rightarrow> Inl e
         | Inr u' \<Rightarrow> from_variants rt vs obj u')
      else from_variants rt vs obj u)"
| "from_variants rt (VariantField f T # vs) obj u =
     (if is_dict obj \<and> first_key obj = Inr f then
        (case py_getitem obj f of
           Inl e \<Rightarrow> Inl e
         | Inr w \<Rightarrow>
             (case from_dict rt T w of
                Inl e \<Rightarrow> Inl e
              | Inr val \<Rightarrow>
                  (case union_setter f T u val of
                     Inl e \<Rightarrow> Inl e
                   | Inr u' \<Rightarrow> from_variants rt vs obj u')))
      else from_variants rt vs obj u)"

section \<open>Encoding: \<open>to_dict\<close>\<close>

text \<open>
  A struct's \<open>to_dict(self, transformer)\<close> is
  \<open>d = dict(r=..., ...)\<close> with one keyword argument per field of \<open>all_required_fields\<close>,
  then, per field of \<open>all_optional_fields\<close>, \<open>if self._f is not None: d['f'] = ...\<close>,
  then \<open>return d\<close>. The value emitted for a composite field is
  \<open>self._f.to_dict(transformer)\<close>, for a primitive field
  \<open>transformer.convert_to(self.__f_data_type, self._f)\<close>.

  A union's \<open>to_dict\<close> runs one \<open>if self.is_f():\<close> per variant, returning the tag's name
  for a symbol and \<open>dict(f=self.f.to_dict(transformer))\<close> for a payload variant; with no
  tag selected the body runs off its end.

  The call \<open>self._f.to_dict(transformer)\<close> is dispatched on the class of the stored
  object: a value that is no instance has no such method (\<open>AttributeError\<close>). The setters
  store instances of the field's declared class only, and \<open>call_to_dict\<close> answers
  \<open>AttributeError\<close> for an instance of any other class as well. A method runs on an
  instance of its own class; on any other value its attribute reads fail.
\<close>

function (sequential) to_dict :: "'p runtime \<Rightarrow> 'p composite \<Rightarrow> pyval \<Rightarrow> error + pyval"
and call_to_dict :: "'p runtime \<Rightarrow> 'p composite \<Rightarrow> pyval \<Rightarrow> error + pyval"
and field_to_dict :: "'p runtime \<Rightarrow> 'p field \<Rightarrow> pyval \<Rightarrow> error + pyval"
and required_args :: "'p runtime \<Rightarrow> 'p field list \<Rightarrow> pyval \<Rightarrow> error + (string \<times> pyval) list"
and optional_items ::
  "'p runtime \<Rightarrow> 'p field list \<Rightarrow> pyval \<Rightarrow> (string \<times> pyval) list \<Rightarrow> error + (string \<times> pyval) list"
and variants_to_dict :: "'p runtime \<Rightarrow> 'p variant list \<Rightarrow> pyval \<Rightarrow> error + pyval"
where
  "to_dict rt (Struct n fs) (StructObj c v h) =
     (case required_args rt fs (StructObj c v h) of
        Inl e \<Rightarrow> Inl e
      | Inr d \<Rightarrow>
          (case optional_items rt fs (StructObj c v h) d of
             Inl e \<Rightarrow> Inl e
           | Inr d' \<Rightarrow> Inr (PDict d')))"
| "to_dict rt (Union n vs) (UnionObj c t v) = variants_to_dict rt vs (UnionObj c t v)"
| "to_dict rt T self = Inl AttributeError"
| "call_to_dict rt T val =
     (if isinstance val (composite_name T) then to_dict rt T val else Inl AttributeError)"
| "field_to_dict rt (Field n (Composite T) opt dflt d) self =
     call_to_dict rt T (slot_value self n)"
| "field_to_dict rt (Field n (Primitive p) opt dflt d) self =
     convert_to rt p (slot_value self n)"
| "required_args rt [] self = Inr []"
| "required_args rt (f # fs) self =
     (if optional f then required_args rt fs self
      else
        (case field_to_dict rt f self of
           Inl e \<Rightarrow> Inl e
         | Inr w \<Rightarrow>
             (case required_args rt fs self of
                Inl e \<Rightarrow> Inl e
              | Inr d \<Rightarrow> Inr ((field_name f, w) # d))))"
| "optional_items rt [] self d = Inr d"
| "optional_items rt (f # fs) self d =
     (if optional f \<and> slot_value self (field_name f) \<noteq> PNone then
        (case field_to_dict rt f self of
           Inl e \<Rightarrow> Inl e
         | Inr w \<Rightarrow> optional_items rt fs self (AList.update (field_name f) w d))
      else optional_items rt fs self d)"
| "variants_to_dict rt [] self = Inr PNone"
| "variants_to_dict rt (SymbolField f # vs) self =
     (if is_tag f self then Inr (PStr f) else variants_to_dict rt vs self)"
| "variants_to_dict rt (VariantField f T # vs) self =
     (if is_tag f self then
        (case union_getter f self of
           Inl e \<Rightarrow> Inl e
         | Inr val \<Rightarrow>
             (case call_to_dict rt T val of
                Inl e \<Rightarrow> Inl e
              | Inr w \<Rightarrow> Inr (PDict [(f, w)])))
      else variants_to_dict rt vs self)"
  by pat_completeness auto

termination
  by (relation "measure (case_sum
        (case_sum (\<lambda>(rt, T, self). 2 * size T)
           (case_sum (\<lambda>(rt, T, val). 2 * size T + 1) (\<lambda>(rt, f, self). 2 * size f + 1)))
        (case_sum (\<lambda>(rt, fs, self). 2 * size_list size fs + 1)
           (case_sum (\<lambda>(rt, fs, self, d). 2 * size_list size fs + 1)
              (\<lambda>(rt, vs, self). 2 * size_list size vs + 1))))") auto

section \<open>Operations on a struct instance\<close>

text \<open>
  What a caller can do to an instance of a generated struct class: read a field, assign a
  field, \<open>del\<close> a field, call \<open>validate\<close> and call \<open>to_dict\<close>. The getter, \<open>validate\<close>
  and \<open>to_dict\<close> contain no assignment; an operation that raises leaves the instance as
  it was.
\<close>

datatype 'p struct_op =
    GetOp "'p field"
  | SetOp "'p field" pyval
  | DelOp "'p field"
  | ValidateOp
  | ToDictOp

fun apply_op :: "'p runtime \<Rightarrow> pyval \<Rightarrow> 'p struct_op \<Rightarrow> pyval" where
  "apply_op rt self (GetOp f) = self"
| "apply_op rt self (SetOp f val) =
     (case setter rt f self val of Inl e \<Rightarrow> self | Inr self' \<Rightarrow> self')"
| "apply_op rt self (DelOp f) =
     (case py_del f self of Inl e \<Rightarrow> self | Inr self' \<Rightarrow> self')"
| "apply_op rt self ValidateOp = self"
| "apply_op rt self ToDictOp = self"

definition run_ops :: "'p runtime \<Rightarrow> pyval \<Rightarrow> 'p struct_op list \<Rightarrow> pyval" where
  "run_ops rt self ops = foldl (apply_op rt) self ops"

section \<open>A runtime and a schema to evaluate on\<close>

text \<open>Modelled from the spec: the runtime's validators and transformer are missing from
  the sources; here a primitive value is run through its validator's \<open>check\<close> in the
  setter, on decoding and on encoding.\<close>

definition spec_runtime :: "primitive runtime" where
  "spec_runtime =
     \<lparr> dt_validate = (\<lambda>p val. case check p val of Inl e \<Rightarrow> Some e | Inr w \<Rightarrow> None),
       convert_from = check,
       convert_to = check \<rparr>"

text \<open>
  The types of \<^verbatim>\<open>test_babel_internal.py\<close>: the struct \<open>QuotaInfo\<close> with the required
  field \<open>quota\<close>, and the union \<open>WriteConflictPolicy\<close> with the symbols \<open>reject\<close> and
  \<open>overwrite\<close> and the payload variant \<open>update_if_matching_parent_rev\<close> (whose struct
  carries an integer revision here).
\<close>

definition quota_field :: "primitive field" where
  "quota_field = Field ''quota'' (Primitive (IntegerType UInt64 None None)) False False PNone"

definition quota_info :: "primitive composite" where
  "quota_info = Struct ''QuotaInfo'' [quota_field]"

definition update_parent_rev :: "primitive composite" where
  "update_parent_rev =
     Struct ''UpdateParentRev''
       [Field ''parent_rev'' (Primitive (IntegerType UInt64 None None)) False False PNone]"

definition write_conflict_policy :: "primitive composite" where
  "write_conflict_policy =
     Union ''WriteConflictPolicy''
       [SymbolField ''reject'', SymbolField ''overwrite'',
        VariantField ''update_if_matching_parent_rev'' update_parent_rev]"

text \<open>An optional integer field with the default \<open>5\<close>, and an optional field of the
  null type.\<close>

definition limit_field :: "primitive field" where
  "limit_field = Field ''limit'' (Primitive (IntegerType UInt32 None None)) True True (PInt 5)"

definition note_field :: "primitive field" where
  "note_field = Field ''note'' (Primitive NullType) True False PNone"

text \<open>Instances: a \<open>QuotaInfo\<close> with \<open>quota\<close> assigned, an \<open>UpdateParentRev\<close>, and a
  \<open>WriteConflictPolicy\<close> after \<open>set_reject()\<close> and after the payload variant was
  assigned.\<close>

definition quota_set :: pyval where
  "quota_set =
     StructObj ''QuotaInfo'' ((\<lambda>_. PNone)(''quota'' := PInt 64000))
       ((\<lambda>_. False)(''quota'' := True))"

definition rev_obj :: pyval where
  "rev_obj =
     StructObj ''UpdateParentRev'' ((\<lambda>_. PNone)(''parent_rev'' := PInt 3))
       ((\<lambda>_. False)(''parent_rev'' := True))"

definition policy_reject :: pyval where
  "policy_reject = UnionObj ''WriteConflictPolicy'' (Some ''reject'') (\<lambda>_. PNone)"

definition policy_update :: pyval where
  "policy_update =
     UnionObj ''WriteConflictPolicy'' (Some ''update_if_matching_parent_rev'')
       ((\<lambda>_. PNone)(''update_if_matching_parent_rev'' := rev_obj))"

text \<open>A struct with a nested struct: \<open>AccountInfo\<close> with the required fields
  \<open>quota_info\<close> (a \<open>QuotaInfo\<close>) and \<open>account_id\<close>. The structs \<open>Limits\<close> and \<open>Memo\<close> hold
  the optional fields above; \<open>memo_set\<close> is a \<open>Memo\<close> after \<open>note\<close> was assigned
  \<open>None\<close>.\<close>

definition account_info :: "primitive composite" where
  "account_info =
     Struct ''AccountInfo''
       [Field ''quota_info'' (Composite quota_info) False False PNone,
        Field ''account_id'' (Primitive (IntegerType UInt64 None None)) False False PNone]"

definition limits :: "primitive composite" where
  "limits = Struct ''Limits'' [limit_field]"

definition memo :: "primitive composite" where
  "memo = Struct ''Memo'' [note_field]"

definition memo_set :: pyval where
  "memo_set =
     StructObj ''Memo'' ((\<lambda>_. PNone)(''note'' := PNone)) ((\<lambda>_. False)(''note'' := True))"

section \<open>What \<open>to_dict\<close> emits\<close>


text \<open>
  The slots of an instance that no caller has written around the setters: a slot that is
  not set holds \<open>None\<close>.
\<close>

definition unset_slots_empty :: "'p field list \<Rightarrow> pyval \<Rightarrow> bool" where
  "unset_slots_empty fs self =
     list_all (\<lambda>f. has_flag self (field_name f) \<or> slot_value self (field_name f) = PNone) fs"



section \<open>Valid instances and field-for-field equality\<close>



text \<open>
  An instance that is valid at every level. The emitted \<open>validate()\<close> looks at the
  required flags of the instance itself (at the tag, for a union), and the setter of a
  composite field drops the result of \<open>val.validate()\<close>; \<open>valid_instance\<close> asks for more
  than \<open>validate()\<close> (\<open>valid_instance_validate\<close>). Of a struct: an instance of its class in
  which a composite field is either set to an instance of its type that is valid in turn,
  or optional, unset and \<open>None\<close>, and a primitive field is set, an optional one to a
  value other than \<open>None\<close>. Of a union: an instance of its class whose tag names one of
  the variants, the payload of a payload variant being valid in turn.
\<close>

function (sequential) valid_instance :: "'p composite \<Rightarrow> pyval \<Rightarrow> bool"
and valid_slots :: "'p field list \<Rightarrow> pyval \<Rightarrow> bool"
and valid_slot :: "'p field \<Rightarrow> pyval \<Rightarrow> bool"
and valid_tag :: "'p variant list \<Rightarrow> pyval \<Rightarrow> bool"
where
  "valid_instance (Struct n fs) (StructObj c v h) = (c = n \<and> valid_slots fs (StructObj c v h))"
| "valid_instance (Union n vs) (UnionObj c t pv) = (c = n \<and> valid_tag vs (UnionObj c t pv))"
| "valid_instance T x = False"
| "valid_slots [] x = True"
| "valid_slots (f # fs) x = (valid_slot f x \<and> valid_slots fs x)"
| "valid_slot (Field m (Composite T) opt dflt dv) x =
     (if has_flag x m then valid_instance T (slot_value x m)
      else opt \<and> slot_value x m = PNone)"
| "valid_slot (Field m (Primitive p) opt dflt dv) x =
     (has_flag x m \<and> (if opt then slot_value x m \<noteq> PNone else True))"
| "valid_tag [] x = False"
| "valid_tag (SymbolField m # vs) x = (is_tag m x \<or> valid_tag vs x)"
| "valid_tag (VariantField m T # vs) x =
     (is_tag m x \<and> valid_instance T (slot_value x m) \<or> valid_tag vs x)"
  by pat_completeness auto

termination
  by (relation "measure (case_sum
        (case_sum (\<lambda>(T, x). 2 * size T) (\<lambda>(fs, x). 2 * size_list size fs + 1))
        (case_sum (\<lambda>(f, x). 2 * size f) (\<lambda>(vs, x). 2 * size_list size vs + 1)))") auto

text \<open>
  Equality field for field. Two struct instances: the same class, and for every field
  the same set flag and the same value, a set composite field being compared field for
  field in turn. Two union instances: the same class, the same tag, and the payload of the
  active variant equal field for field.
\<close>

function (sequential) same_fields :: "'p composite \<Rightarrow> pyval \<Rightarrow> pyval \<Rightarrow> bool"
and same_slots :: "'p field list \<Rightarrow> pyval \<Rightarrow> pyval \<Rightarrow> bool"
and same_slot :: "'p field \<Rightarrow> pyval \<Rightarrow> pyval \<Rightarrow> bool"
and same_payload :: "'p variant list \<Rightarrow> pyval \<Rightarrow> pyval \<Rightarrow> bool"
where
  "same_fields (Struct n fs) (StructObj c v h) (StructObj c' v' h') =
     (c = c' \<and> same_slots fs (StructObj c v h) (StructObj c' v' h'))"
| "same_fields (Union n vs) (UnionObj c t pv) (UnionObj c' t' pv') =
     (c = c' \<and> t = t' \<and> same_payload vs (UnionObj c t pv) (UnionObj c' t' pv'))"
| "same_fields T x y = False"
| "same_slots [] x y = True"
| "same_slots (f # fs) x y = (same_slot f x y \<and> same_slots fs x y)"
| "same_slot (Field m (Composite T) opt dflt dv) x y =
     (has_flag x m = has_flag y m \<and>
      (if has_flag x m then same_fields T (slot_value x m) (slot_value y m)
       else slot_value x m = slot_value y m))"
| "same_slot (Field m (Primitive p) opt dflt dv) x y =
     (has_flag x m = has_flag y m \<and> slot_value x m = slot_value y m)"
| "same_payload [] x y = True"
| "same_payload (SymbolField m # vs) x y = same_payload vs x y"
| "same_payload (VariantField m T # vs) x y =
     ((if is_tag m x then same_fields T (slot_value x m) (slot_value y m) else True)
      \<and> same_payload vs x y)"
  by pat_completeness auto

termination
  by (relation "measure (case_sum
        (case_sum (\<lambda>(T, x, y). 2 * size T) (\<lambda>(fs, x, y). 2 * size_list size fs + 1))
        (case_sum (\<lambda>(f, x, y). 2 * size f) (\<lambda>(vs, x, y). 2 * size_list size vs + 1)))") auto





section \<open>Classes of types with a super type\<close>

text \<open>
  A struct or union may extend a parent type. The generator then emits
  \<open>class Child(Parent):\<close>, and in the child class
  \<^item> \<open>__init__\<close>, which calls \<open>super(Child, self).__init__()\<close> first and then sets the
    attributes of the child's own fields (and, in a union class, \<open>self.__tag\<close>);
  \<^item> properties, \<open>is_f\<close> and \<open>set_f\<close> for the child's own fields only, the parent's being
    inherited;
  \<^item> \<open>validate\<close>, which in a struct class reads \<open>self.__has_f\<close> for every field of
    \<open>all_required_fields\<close>, the inherited ones included.

  Inside a class body Python rewrites an attribute name that starts with two underscores
  to carry the name of that class: \<open>self.__has_f\<close> written in class \<open>C\<close> is the attribute
  \<open>_C__has_f\<close>, and \<open>self.__tag\<close> written in class \<open>C\<close> is \<open>_C__tag\<close>. The attribute \<open>_f\<close>
  is not rewritten. An instance is its attribute dictionary; reading an attribute that
  is not there raises \<open>AttributeError\<close>.

  The sections above are this class model for a type that extends no other type, where
  all flags carry one class name; the lemmas \<open>class_validate_is_validate\<close>,
  \<open>class_init_is_struct_init\<close>, \<open>class_setter_is_setter\<close>, \<open>class_is_tag_is_tag\<close>,
  \<open>union_class_init_is_union_init\<close>, \<open>class_set_symbol_is_set_symbol\<close>,
  \<open>class_union_setter_is_union_setter\<close> and \<open>class_union_validate_is_validate\<close> say so.
\<close>

datatype attr = Value string | Has string string | Tag string | Plain string

type_synonym attrs = "attr \<Rightarrow> pyval option"

datatype 'p struct_type = StructType string "'p struct_type option" "'p field list"

datatype 'p union_type = UnionType string "'p union_type option" "'p variant list"

text \<open>Modelled from the spec: \<open>all_fields\<close>, a property of the type descriptor whose
  class is missing from the sources, is the parent's \<open>all_fields\<close> followed by the type's
  own fields.\<close>

fun all_fields :: "'p struct_type \<Rightarrow> 'p field list" where
  "all_fields (StructType n None fs) = fs"
| "all_fields (StructType n (Some p) fs) = all_fields p @ fs"

text \<open>The class names along the chain of super types, the class itself first.\<close>

fun class_names :: "'p struct_type \<Rightarrow> string list" where
  "class_names (StructType n None fs) = [n]"
| "class_names (StructType n (Some p) fs) = n # class_names p"

fun getattr :: "attrs \<Rightarrow> attr \<Rightarrow> error + pyval" where
  "getattr d a = (case d a of None \<Rightarrow> Inl AttributeError | Some val \<Rightarrow> Inr val)"

text \<open>
  \<open>__init__\<close> of a struct class: the parent's \<open>__init__\<close> when there is a super type, then
  \<open>self._f = None\<close> and \<open>self.__has_f = False\<close> for each of the class's own fields.
\<close>

fun init_fields :: "string \<Rightarrow> 'p field list \<Rightarrow> attrs \<Rightarrow> attrs" where
  "init_fields n [] d = d"
| "init_fields n (f # fs) d =
     init_fields n fs (d(Value (field_name f) \<mapsto> PNone, Has n (field_name f) \<mapsto> PBool False))"

fun class_init :: "'p struct_type \<Rightarrow> attrs \<Rightarrow> attrs" where
  "class_init (StructType n None fs) d = init_fields n fs d"
| "class_init (StructType n (Some p) fs) d = init_fields n fs (class_init p d)"

text \<open>
  \<open>validate\<close> of a struct class: \<open>return all([self.__has_f, ...])\<close> over
  \<open>all_required_fields\<close>, every flag read under the name of the class that \<open>validate\<close>
  is emitted in. The list is built first, one attribute read after the other.
\<close>

fun py_truth :: "pyval \<Rightarrow> bool" where
  "py_truth PNone = False"
| "py_truth (PBool b) = b"
| "py_truth (PInt i) = (i \<noteq> 0)"
| "py_truth (PStr s) = (s \<noteq> [])"
| "py_truth (PList xs) = (xs \<noteq> [])"
| "py_truth (PDict kvs) = (kvs \<noteq> [])"
| "py_truth x = True"

fun read_flags :: "string \<Rightarrow> 'p field list \<Rightarrow> attrs \<Rightarrow> error + pyval list" where
  "read_flags n [] d = Inr []"
| "read_flags n (f # fs) d =
     (case getattr d (Has n (field_name f)) of
        Inl e \<Rightarrow> Inl e
      | Inr b \<Rightarrow>
          (case read_flags n fs d of
             Inl e \<Rightarrow> Inl e
           | Inr bs \<Rightarrow> Inr (b # bs)))"

fun class_validate :: "'p struct_type \<Rightarrow> attrs \<Rightarrow> error + bool" where
  "class_validate (StructType n sp fs) d =
     (case read_flags n (all_required_fields (all_fields (StructType n sp fs))) d of
        Inl e \<Rightarrow> Inl e
      | Inr bs \<Rightarrow> Inr (list_all py_truth bs))"

text \<open>
  An assignment \<open>x.a = val\<close> finds the property \<open>a\<close> in the class of \<open>x\<close> or, failing
  that, along its super types; the setter found writes \<open>self._a\<close> and the flag
  \<open>self.__has_a\<close> of the class that declares the field. With no such property the
  assignment creates the plain attribute \<open>a\<close>. A run of assignments keeps the instance
  as it was where a setter raises.
\<close>

fun find_property :: "'p struct_type \<Rightarrow> string \<Rightarrow> (string \<times> 'p field) option" where
  "find_property (StructType n None fs) a =
     (case find (\<lambda>f. field_name f = a) fs of
        Some f \<Rightarrow> Some (n, f)
      | None \<Rightarrow> None)"
| "find_property (StructType n (Some p) fs) a =
     (case find (\<lambda>f. field_name f = a) fs of
        Some f \<Rightarrow> Some (n, f)
      | None \<Rightarrow> find_property p a)"

definition class_setter ::
  "'p runtime \<Rightarrow> 'p struct_type \<Rightarrow> string \<Rightarrow> pyval \<Rightarrow> attrs \<Rightarrow> error + attrs" where
  "class_setter rt T a val d =
     (case find_property T a of
        None \<Rightarrow> Inr (d(Plain a \<mapsto> val))
      | Some (C, f) \<Rightarrow>
          (case setter_guard rt (field_data_type f) val of
             Some e \<Rightarrow> Inl e
           | None \<Rightarrow> Inr (d(Value a \<mapsto> val, Has C a \<mapsto> PBool True))))"

fun class_run ::
  "'p runtime \<Rightarrow> 'p struct_type \<Rightarrow> attrs \<Rightarrow> (string \<times> pyval) list \<Rightarrow> attrs" where
  "class_run rt T d [] = d"
| "class_run rt T d ((a, val) # ops) =
     (case class_setter rt T a val d of
        Inl e \<Rightarrow> class_run rt T d ops
      | Inr d' \<Rightarrow> class_run rt T d' ops)"

text \<open>
  \<open>__init__\<close> of a union class: the parent's \<open>__init__\<close> when there is a super type, then
  \<open>self._f = None\<close> for each own payload variant, then \<open>self.__tag = None\<close>. The methods
  \<open>is_f\<close> and \<open>set_f\<close> and the payload setters are found along the super types like
  properties and use the \<open>__tag\<close> of the class that declares the variant; \<open>validate\<close>
  reads the \<open>__tag\<close> of the class it is emitted in.
\<close>

fun init_variants :: "'p variant list \<Rightarrow> attrs \<Rightarrow> attrs" where
  "init_variants [] d = d"
| "init_variants (SymbolField f # vs) d = init_variants vs d"
| "init_variants (VariantField f T # vs) d = init_variants vs (d(Value f \<mapsto> PNone))"

fun union_class_init :: "'p union_type \<Rightarrow> attrs \<Rightarrow> attrs" where
  "union_class_init (UnionType n None vs) d = (init_variants vs d)(Tag n \<mapsto> PNone)"
| "union_class_init (UnionType n (Some p) vs) d =
     (init_variants vs (union_class_init p d))(Tag n \<mapsto> PNone)"

fun find_variant :: "'p union_type \<Rightarrow> string \<Rightarrow> (string \<times> 'p variant) option" where
  "find_variant (UnionType n None vs) a =
     (case find (\<lambda>v. variant_name v = a) vs of
        Some v \<Rightarrow> Some (n, v)
      | None \<Rightarrow> None)"
| "find_variant (UnionType n (Some p) vs) a =
     (case find (\<lambda>v. variant_name v = a) vs of
        Some v \<Rightarrow> Some (n, v)
      | None \<Rightarrow> find_variant p a)"

definition class_is_tag :: "'p union_type \<Rightarrow> string \<Rightarrow> attrs \<Rightarrow> error + bool" where
  "class_is_tag T f d =
     (case find_variant T f of
        None \<Rightarrow> Inl AttributeError
      | Some (C, v) \<Rightarrow>
          (case getattr d (Tag C) of
             Inl e \<Rightarrow> Inl e
           | Inr t \<Rightarrow> Inr (t = PStr f)))"

definition class_set_symbol :: "'p union_type \<Rightarrow> string \<Rightarrow> attrs \<Rightarrow> error + attrs" where
  "class_set_symbol T f d =
     (case find_variant T f of
        Some (C, SymbolField s) \<Rightarrow> Inr (d(Tag C \<mapsto> PStr f))
      | Some (C, VariantField s P) \<Rightarrow> Inl AttributeError
      | None \<Rightarrow> Inl AttributeError)"

definition class_union_setter ::
  "'p union_type \<Rightarrow> string \<Rightarrow> pyval \<Rightarrow> attrs \<Rightarrow> error + attrs" where
  "class_union_setter T f val d =
     (case find_variant T f of
        Some (C, VariantField s P) \<Rightarrow>
          (if \<not> isinstance val (composite_name P) then Inl TypeError
           else Inr (d(Value f \<mapsto> val, Tag C \<mapsto> PStr f)))
      | Some (C, SymbolField s) \<Rightarrow> Inr (d(Plain f \<mapsto> val))
      | None \<Rightarrow> Inr (d(Plain f \<mapsto> val)))"

fun class_union_validate :: "'p union_type \<Rightarrow> attrs \<Rightarrow> error + bool" where
  "class_union_validate (UnionType n sp vs) d =
     (case getattr d (Tag n) of
        Inl e \<Rightarrow> Inl e
      | Inr t \<Rightarrow> Inr (t \<noteq> PNone))"

text \<open>
  The attribute dictionary of an instance as the sections above hold it, for a struct and
  a union class named \<open>n\<close> with no super type.
\<close>

definition struct_attrs :: "string \<Rightarrow> 'p field list \<Rightarrow> pyval \<Rightarrow> attrs" where
  "struct_attrs n fs x =
     (\<lambda>a. case a of
        Value f \<Rightarrow> if f \<in> set (map field_name fs) then Some (slot_value x f) else None
      | Has C f \<Rightarrow>
          if C = n \<and> f \<in> set (map field_name fs) then Some (PBool (has_flag x f)) else None
      | Tag C \<Rightarrow> None
      | Plain f \<Rightarrow> None)"

fun payload_names :: "'p variant list \<Rightarrow> string list" where
  "payload_names [] = []"
| "payload_names (SymbolField f # vs) = payload_names vs"
| "payload_names (VariantField f T # vs) = f # payload_names vs"

fun tag_value :: "pyval \<Rightarrow> pyval" where
  "tag_value (UnionObj c (Some f) pv) = PStr f"
| "tag_value x = PNone"

definition union_attrs :: "string \<Rightarrow> 'p variant list \<Rightarrow> pyval \<Rightarrow> attrs" where
  "union_attrs n vs u =
     (\<lambda>a. case a of
        Value f \<Rightarrow> if f \<in> set (payload_names vs) then Some (slot_value u f) else None
      | Has C f \<Rightarrow> None
      | Tag C \<Rightarrow> if C = n then Some (tag_value u) else None
      | Plain f \<Rightarrow> None)"

text \<open>
  A struct \<open>TeamQuotaInfo\<close> that extends \<open>QuotaInfo\<close> (required field \<open>quota\<close>) with the
  required field \<open>team\<close>: a fresh instance, and the instance after both fields were
  assigned. A union \<open>WritePolicy\<close> that extends \<open>ConflictPolicy\<close> (symbols \<open>reject\<close> and
  \<open>overwrite\<close>) with the payload variant \<open>update_if_matching_parent_rev\<close>: a fresh
  instance, and the instance after \<open>set_reject()\<close> and an assignment to the payload
  variant.
\<close>

definition quota_info_type :: "primitive struct_type" where
  "quota_info_type = StructType ''QuotaInfo'' None [quota_field]"

definition team_quota_type :: "primitive struct_type" where
  "team_quota_type =
     StructType ''TeamQuotaInfo'' (Some quota_info_type)
       [Field ''team'' (Primitive (IntegerType UInt64 None None)) False False PNone]"

definition team_quota_fresh :: attrs where
  "team_quota_fresh = class_init team_quota_type Map.empty"

definition team_quota_set :: attrs where
  "team_quota_set =
     team_quota_fresh(Value ''quota'' \<mapsto> PInt 64000, Has ''QuotaInfo'' ''quota'' \<mapsto> PBool True,
       Value ''team'' \<mapsto> PInt 7, Has ''TeamQuotaInfo'' ''team'' \<mapsto> PBool True)"

definition base_policy_type :: "primitive union_type" where
  "base_policy_type =
     UnionType ''ConflictPolicy'' None [SymbolField ''reject'', SymbolField ''overwrite'']"

definition write_policy_type :: "primitive union_type" where
  "write_policy_type =
     UnionType ''WritePolicy'' (Some base_policy_type)
       [VariantField ''update_if_matching_parent_rev'' update_parent_rev]"

definition write_policy_fresh :: attrs where
  "write_policy_fresh = union_class_init write_policy_type Map.empty"

definition write_policy_both :: attrs where
  "write_policy_both =
     write_policy_fresh(Tag ''ConflictPolicy'' \<mapsto> PStr ''reject'',
       Value ''update_if_matching_parent_rev'' \<mapsto> rev_obj,
       Tag ''WritePolicy'' \<mapsto> PStr ''update_if_matching_parent_rev'')"

text \<open>
  A struct \<open>Outer\<close> whose required field holds an \<open>Inner\<close>, a struct with one required
  field of the null type: an \<open>Outer\<close> assigned a fresh \<open>Inner\<close>, and what its wire object
  decodes to.
\<close>

definition inner_type :: "primitive composite" where
  "inner_type = Struct ''Inner'' [Field ''n'' (Primitive NullType) False False PNone]"

definition outer_type :: "primitive composite" where
  "outer_type = Struct ''Outer'' [Field ''inner'' (Composite inner_type) False False PNone]"

definition outer_set :: pyval where
  "outer_set =
     StructObj ''Outer'' ((\<lambda>_. PNone)(''inner'' := struct_init ''Inner''))
       ((\<lambda>_. False)(''inner'' := True))"

definition outer_decoded :: pyval where
  "outer_decoded =
     StructObj ''Outer''
       ((\<lambda>_. PNone)(''inner'' :=
          StructObj ''Inner'' ((\<lambda>_. PNone)(''n'' := PNone)) ((\<lambda>_. False)(''n'' := True))))
       ((\<lambda>_. False)(''inner'' := True))"

section \<open>Integer validators\<close>

text \<open>
  Claim C10. For each of the four integer validators, with any declared bounds, and for
  every integer \<open>n\<close>: \<open>check\<close> returns \<open>n\<close> unchanged when \<open>min_value \<le> n \<le> max_value\<close>
  and fails with \<open>RangeError\<close> otherwise. With the default bounds the unsigned 32-bit
  validator accepts \<open>0\<close> and \<open>4294967295\<close> and rejects \<open>4294967296\<close> and \<open>-1\<close>.
\<close>

theorem check_integer_range:
  "check (IntegerType k lo hi) (PInt n) =
     (if min_value (IntegerType k lo hi) \<le> n \<and> n \<le> max_value (IntegerType k lo hi)
      then Inr (PInt n) else Inl RangeError)
   \<and> check (IntegerType UInt32 None None) (PInt 0) = Inr (PInt 0)
   \<and> check (IntegerType UInt32 None None) (PInt 4294967295) = Inr (PInt 4294967295)
   \<and> check (IntegerType UInt32 None None) (PInt 4294967296) = Inl RangeError
   \<and> check (IntegerType UInt32 None None) (PInt (- 1)) = Inl RangeError"
  by simp


section \<open>Struct instances: validation, reading, the set flag\<close>

text \<open>
  For a struct that extends no other type, \<open>validate()\<close> returns true if and only if
  the set flag of every required (non-optional) field is true, whatever the state of the
  optional fields. It is a read: \<open>validate\<close> yields a boolean and no instance.
\<close>

theorem validate_iff_required_set:
  "validate (Struct n fs) (StructObj c v h) \<longleftrightarrow>
     (\<forall>f \<in> set fs. \<not> optional f \<longrightarrow> has_flag (StructObj c v h) (field_name f))"
  by (auto simp: all_required_fields_def list_all_iff)

theorem validate_iff_required_set_witness:
  "\<not> validate quota_info (struct_init ''QuotaInfo'') \<and> validate quota_info quota_set
   \<and> setter spec_runtime quota_field (struct_init ''QuotaInfo'') (PInt 64000) = Inr quota_set"
  using
    validate_iff_required_set [of "''QuotaInfo''" "[quota_field]" "''QuotaInfo''"
      "\<lambda>_. PNone" "\<lambda>_. False"]
    validate_iff_required_set [of "''QuotaInfo''" "[quota_field]" "''QuotaInfo''"
      "(\<lambda>_. PNone)(''quota'' := PInt 64000)" "(\<lambda>_. False)(''quota'' := True)"]
  by (simp add: quota_info_def quota_field_def quota_set_def struct_init_def setter_def
      spec_runtime_def)

text \<open>
  Reading an unset slot: a required field raises, an optional field yields \<open>None\<close>,
  with or without a declared default.
\<close>

lemma getter_unset:
  "\<not> has_flag (StructObj c v h) (field_name f) \<Longrightarrow>
   getter f (StructObj c v h) =
     (if optional f then Inr PNone else Inl (MissingRequiredField (field_name f)))"
  by (simp add: getter_else_def)

lemma getter_set:
  "has_flag (StructObj c v h) (field_name f) \<Longrightarrow>
   getter f (StructObj c v h) = Inr (slot_value (StructObj c v h) (field_name f))"
  by simp

text \<open>
  Claim C4. Reading a field whose slot is unset fails for a required field, returns the
  declared default for an optional field that has one, and returns \<open>None\<close> for an
  optional field without a default. The emitted getter does not do the second: the
  default's literal is emitted as an expression statement, with no \<open>return\<close>, so the
  getter of the optional field \<open>limit\<close>, whose default is \<open>5\<close>, returns \<open>None\<close> on a fresh
  instance.
\<close>

theorem getter_drops_default:
  "optional limit_field \<and> has_default limit_field \<and> field_default limit_field = PInt 5
   \<and> \<not> has_flag (struct_init ''Limits'') (field_name limit_field)
   \<and> getter limit_field (struct_init ''Limits'') = Inr PNone"
  by (simp add: limit_field_def struct_init_def getter_else_def)

lemma py_del_raises: "py_del f self = Inl TypeError"
  by (simp add: py_del_def deleter_params_def)

lemma setter_keeps_flag:
  "setter rt f self val = Inr self' \<Longrightarrow> has_flag self n \<Longrightarrow> has_flag self' n"
  by (cases self) (auto simp: setter_def split: option.splits)

lemma setter_sets_slot:
  "setter rt f self val = Inr self' \<Longrightarrow>
   has_flag self' (field_name f) \<and> slot_value self' (field_name f) = val"
  by (cases self) (auto simp: setter_def split: option.splits)

lemma apply_op_keeps_flag: "has_flag self n \<Longrightarrow> has_flag (apply_op rt self op) n"
  by (cases op) (auto simp: py_del_raises dest: setter_keeps_flag split: sum.splits)

lemma run_ops_keeps_flag: "has_flag self n \<Longrightarrow> has_flag (run_ops rt self ops) n"
  unfolding run_ops_def by (induction ops arbitrary: self) (auto simp: apply_op_keeps_flag)

text \<open>
  Had the deleter's body run, it would have cleared the slot; \<open>del\<close> never reaches it.
\<close>

lemma deleter_body_clears:
  "deleter_body f (StructObj c v h) = Inr x \<Longrightarrow> \<not> has_flag x (field_name f)"
  by auto

text \<open>
  Claim C5. The set flag of a field slot goes one way, from unset to set: a slot that is
  set stays set under every sequence of operations on the instance (reads, assignments
  that succeed or raise, \<open>del\<close>, \<open>validate\<close>, \<open>to_dict\<close>), and an assignment that succeeds
  leaves the slot set, holding the new value.
\<close>

theorem set_flag_one_way:
  "(has_flag self n \<longrightarrow> has_flag (run_ops rt self ops) n)
   \<and> (setter rt f self val = Inr self' \<longrightarrow>
        has_flag self' (field_name f) \<and> slot_value self' (field_name f) = val)"
  using run_ops_keeps_flag setter_sets_slot by blast

theorem set_flag_one_way_witness:
  "has_flag quota_set ''quota''
   \<and> has_flag
        (run_ops spec_runtime quota_set
           [DelOp quota_field, SetOp quota_field (PStr ''x''), GetOp quota_field,
            SetOp quota_field (PInt 7), ValidateOp, ToDictOp]) ''quota''
   \<and> setter spec_runtime quota_field quota_set (PInt 7) =
        Inr (StructObj ''QuotaInfo'' ((\<lambda>_. PNone)(''quota'' := PInt 7))
               ((\<lambda>_. False)(''quota'' := True)))
   \<and> slot_value
        (StructObj ''QuotaInfo'' ((\<lambda>_. PNone)(''quota'' := PInt 7))
           ((\<lambda>_. False)(''quota'' := True))) ''quota'' = PInt 7"
  using set_flag_one_way [of quota_set "''quota''" spec_runtime
      "[DelOp quota_field, SetOp quota_field (PStr ''x''), GetOp quota_field,
        SetOp quota_field (PInt 7), ValidateOp, ToDictOp]"
      quota_field "PInt 7"
      "StructObj ''QuotaInfo'' ((\<lambda>_. PNone)(''quota'' := PInt 7))
         ((\<lambda>_. False)(''quota'' := True))"]
  by (simp add: quota_set_def quota_field_def setter_def spec_runtime_def)

section \<open>Union instances\<close>

text \<open>
  For a union that extends no other type: an instance has at most one active tag;
  \<open>set_f()\<close> of a symbol variant and the setter of a payload variant each make their own
  tag the only active one; so after \<open>set_reject()\<close> and then an assignment to a payload
  variant, \<open>is_reject()\<close> is false and the payload variant is active, its getter
  returning the assigned value.
\<close>

theorem union_single_tag:
  "(is_tag a u \<and> is_tag b u \<longrightarrow> a = b)
   \<and> (set_symbol s u = Inr ua \<longrightarrow> (is_tag b ua \<longleftrightarrow> b = s))
   \<and> (union_setter f T u val = Inr ub \<longrightarrow>
        (is_tag b ub \<longleftrightarrow> b = f) \<and> union_getter f ub = Inr val)
   \<and> (set_symbol r u = Inr ur \<and> union_setter f T ur val = Inr up \<and> r \<noteq> f \<longrightarrow>
        \<not> is_tag r up \<and> is_tag f up)"
  by (cases u) (auto split: if_splits)

theorem union_single_tag_witness:
  "set_symbol ''reject'' (union_init ''WriteConflictPolicy'') = Inr policy_reject
   \<and> is_tag ''reject'' policy_reject
   \<and> union_setter ''update_if_matching_parent_rev'' update_parent_rev policy_reject rev_obj =
        Inr policy_update
   \<and> \<not> is_tag ''reject'' policy_update
   \<and> is_tag ''update_if_matching_parent_rev'' policy_update
   \<and> union_getter ''update_if_matching_parent_rev'' policy_update = Inr rev_obj"
  using union_single_tag [where a = "''reject''" and b = "''reject''"
      and u = "union_init ''WriteConflictPolicy''" and s = "''reject''" and ua = policy_reject
      and r = "''reject''" and ur = policy_reject and up = policy_update
      and f = "''update_if_matching_parent_rev''" and T = update_parent_rev and val = rev_obj]
  by (simp add: policy_reject_def policy_update_def rev_obj_def union_init_def
      update_parent_rev_def)

lemma union_not_one_key:
  "length d \<noteq> 1 \<Longrightarrow>
   from_dict rt (Union n vs) (PDict d) = Inl (AmbiguousUnionPayload (length d))"
  by simp

lemma from_variants_unmatched_string:
  "\<forall>v \<in> set vs. variant_name v \<noteq> s \<Longrightarrow> from_variants rt vs (PStr s) u = Inr u"
proof (induction vs)
  case Nil
  show ?case by simp
next
  case (Cons a vs)
  then show ?case by (cases a) auto
qed


text \<open>
  Claim C8. Decoding a union fails whenever the number of recognised candidate keys is
  not exactly one: an object with more than one key, an object whose only key names no
  variant, a string that names no symbol. The emitted \<open>from_dict\<close> raises for a dictionary
  whose length is not one (\<open>union_not_one_key\<close>) and has no statement for the other two:
  for the string \<open>bogus\<close> and for the object with the single key \<open>bogus\<close> it returns the
  fresh instance, no tag selected, which \<open>validate\<close> rejects.
\<close>

theorem union_from_dict_unmatched:
  "from_dict spec_runtime write_conflict_policy (PStr ''bogus'') =
     Inr (union_init ''WriteConflictPolicy'')
   \<and> from_dict spec_runtime write_conflict_policy (PDict [(''bogus'', PNone)]) =
       Inr (union_init ''WriteConflictPolicy'')
   \<and> \<not> validate write_conflict_policy (union_init ''WriteConflictPolicy'')"
  by (simp add: write_conflict_policy_def union_init_def)


section \<open>Decoding a struct: errors\<close>

lemma check_keys_known:
  "set (map fst d) \<subseteq> set names \<Longrightarrow> check_keys names (map (\<lambda>kv. PStr (fst kv)) d) = None"
  by (induction d) auto

lemma check_keys_unknown:
  "\<exists>k \<in> set (map fst d). k \<notin> set names \<Longrightarrow>
   \<exists>k \<in> set (map fst d). k \<notin> set names \<and>
      check_keys names (map (\<lambda>kv. PStr (fst kv)) d) = Some (UnknownField (PStr k))"
  by (induction d) auto

lemma from_dict_unknown_key:
  "\<exists>k \<in> set (map fst d). k \<notin> set (map field_name fs) \<Longrightarrow>
   \<exists>k \<in> set (map fst d). k \<notin> set (map field_name fs) \<and>
      from_dict rt (Struct n fs) (PDict d) = Inl (UnknownField (PStr k))"
proof -
  assume "\<exists>k \<in> set (map fst d). k \<notin> set (map field_name fs)"
  from check_keys_unknown [OF this]
  obtain k where "k \<in> set (map fst d)" "k \<notin> set (map field_name fs)"
    "check_keys (map field_name fs) (map (\<lambda>kv. PStr (fst kv)) d) = Some (UnknownField (PStr k))"
    by blast
  then show ?thesis by (intro bexI [of _ k]) simp_all
qed

lemma from_field_missing:
  "\<not> optional f \<Longrightarrow> field_name f \<notin> set (map fst d) \<Longrightarrow>
   from_field rt f (PDict d) x = Inl (MissingRequiredField (field_name f))"
proof (cases f)
  case (Field m dt opt dflt dv)
  assume "\<not> optional f" "field_name f \<notin> set (map fst d)"
  with Field show ?thesis by (cases dt) auto
qed

lemma from_fields_append:
  "from_fields rt (xs @ ys) obj x =
     (case from_fields rt xs obj x of Inl e \<Rightarrow> Inl e | Inr x' \<Rightarrow> from_fields rt ys obj x')"
  by (induction xs arbitrary: x) (auto split: sum.splits)

lemma from_fields_missing_fails:
  "f \<in> set fs \<Longrightarrow> \<not> optional f \<Longrightarrow> field_name f \<notin> set (map fst d) \<Longrightarrow>
   \<exists>e. from_fields rt fs (PDict d) x = Inl e"
proof (induction fs arbitrary: x)
  case Nil
  then show ?case by simp
next
  case (Cons a fs)
  show ?case
  proof (cases "from_field rt a (PDict d) x")
    case (Inl e)
    then show ?thesis by simp
  next
    case (Inr x')
    with Cons.prems from_field_missing [of a d rt x] have "f \<noteq> a" by auto
    with Cons.prems have "f \<in> set fs" by simp
    from Cons.IH [OF this Cons.prems(2,3)] Inr show ?thesis by simp
  qed
qed

lemma from_dict_missing_fails:
  "f \<in> set fs \<Longrightarrow> \<not> optional f \<Longrightarrow> field_name f \<notin> set (map fst d) \<Longrightarrow>
   \<exists>e. from_dict rt (Struct n fs) (PDict d) = Inl e"
  using from_fields_missing_fails [of f fs d rt "struct_init n"]
  by (auto split: option.splits)

lemma from_dict_missing_first:
  "set (map fst d) \<subseteq> set (map field_name (pre @ f # post)) \<Longrightarrow> \<not> optional f \<Longrightarrow>
   field_name f \<notin> set (map fst d) \<Longrightarrow>
   from_fields rt pre (PDict d) (struct_init n) = Inr x \<Longrightarrow>
   from_dict rt (Struct n (pre @ f # post)) (PDict d) = Inl (MissingRequiredField (field_name f))"
  using check_keys_known [of d "map field_name (pre @ f # post)"]
  by (simp add: from_fields_append from_field_missing del: map_append)

text \<open>
  Claim C7, as amended. Decoding a wire object that has a key outside the type's field
  names fails with \<open>UnknownField\<close> for such a key. Decoding a wire object that lacks the
  key of a required field fails; when every key is known, the fields declared before
  that field decode and the field is the first whose key is missing, the error is
  \<open>MissingRequiredField\<close> for it.
\<close>

theorem from_dict_struct_errors:
  "((\<exists>k \<in> set (map fst d). k \<notin> set (map field_name fs)) \<longrightarrow>
      (\<exists>k \<in> set (map fst d). k \<notin> set (map field_name fs) \<and>
         from_dict rt (Struct n fs) (PDict d) = Inl (UnknownField (PStr k))))
   \<and> (f \<in> set fs \<and> \<not> optional f \<and> field_name f \<notin> set (map fst d) \<longrightarrow>
        (\<exists>e. from_dict rt (Struct n fs) (PDict d) = Inl e))
   \<and> (fs = pre @ f # post \<and> set (map fst d) \<subseteq> set (map field_name fs) \<and> \<not> optional f
        \<and> field_name f \<notin> set (map fst d)
        \<and> from_fields rt pre (PDict d) (struct_init n) = Inr x \<longrightarrow>
        from_dict rt (Struct n fs) (PDict d) = Inl (MissingRequiredField (field_name f)))"
  using from_dict_unknown_key [of d fs rt n] from_dict_missing_fails [of f fs d rt n]
    from_dict_missing_first [of d pre f post rt n x]
  by blast

theorem from_dict_struct_errors_witness:
  "from_dict spec_runtime quota_info (PDict [(''bad_field'', PStr ''xyz123'')]) =
     Inl (UnknownField (PStr ''bad_field''))
   \<and> from_dict spec_runtime quota_info (PDict []) = Inl (MissingRequiredField ''quota'')"
  using
    from_dict_struct_errors [of "[(''bad_field'', PStr ''xyz123'')]" "[quota_field]"
      spec_runtime "''QuotaInfo''" quota_field "[]" "[]" "struct_init ''QuotaInfo''"]
    from_dict_struct_errors [of "[]" "[quota_field]"
      spec_runtime "''QuotaInfo''" quota_field "[]" "[]" "struct_init ''QuotaInfo''"]
  by (simp add: quota_info_def quota_field_def)

text \<open>
  Claim C7 as stated fails: with the required key \<open>quota\<close> absent and an unknown key
  present the error is \<open>UnknownField\<close>; with the required key \<open>account_id\<close> absent, every
  key known and a number where the nested object belongs, the error is the \<open>TypeError\<close>
  of the nested decoder.
\<close>

theorem from_dict_missing_required_other_error:
  "''quota'' \<notin> set (map fst [(''bad_field'', PStr ''xyz123'')])
   \<and> from_dict spec_runtime quota_info (PDict [(''bad_field'', PStr ''xyz123'')]) =
       Inl (UnknownField (PStr ''bad_field''))
   \<and> ''account_id'' \<notin> set (map fst [(''quota_info'', PInt 5)])
   \<and> from_dict spec_runtime account_info (PDict [(''quota_info'', PInt 5)]) = Inl TypeError"
  by (simp add: quota_info_def quota_field_def account_info_def)

section \<open>Decoding a struct: optional fields\<close>

lemma setter_struct:
  "setter rt f (StructObj c v h) val =
     (case setter_guard rt (field_data_type f) val of
        Some e \<Rightarrow> Inl e
      | None \<Rightarrow> Inr (StructObj c (v(field_name f := val)) (h(field_name f := True))))"
  by (simp add: setter_def split: option.splits)

lemma setter_shape:
  "setter rt f x val = Inr x' \<Longrightarrow>
   \<exists>c v h. x = StructObj c v h \<and> x' = StructObj c (v(field_name f := val)) (h(field_name f := True))"
  by (cases x) (auto simp: setter_def split: option.splits)

lemma from_field_keeps_flag:
  "from_field rt f obj x = Inr x' \<Longrightarrow> has_flag x m \<Longrightarrow> has_flag x' m"
proof (cases f)
  case (Field k dt opt dflt dv)
  assume a: "from_field rt f obj x = Inr x'" "has_flag x m"
  show ?thesis
  proof (cases dt)
    case (Primitive p)
    with a Field show ?thesis
      by (auto split: if_splits sum.splits dest: setter_keeps_flag)
  next
    case (Composite T)
    with a Field show ?thesis
      by (auto split: if_splits sum.splits dest: setter_keeps_flag)
  qed
qed

lemma from_fields_keeps_flag:
  "from_fields rt fs obj x = Inr x' \<Longrightarrow> has_flag x m \<Longrightarrow> has_flag x' m"
  by (induction fs arbitrary: x) (auto split: sum.splits dest: from_field_keeps_flag)

lemma from_field_optional_primitive_sets:
  "from_field rt (Field k (Primitive p) True dflt dv) obj x = Inr x' \<Longrightarrow> has_flag x' k"
  by (auto split: sum.splits dest: setter_sets_slot)

lemma from_fields_optional_primitive_sets:
  "from_fields rt fs obj x = Inr x' \<Longrightarrow> f \<in> set fs \<Longrightarrow> optional f \<Longrightarrow>
   \<not> is_composite_type (field_data_type f) \<Longrightarrow> has_flag x' (field_name f)"
proof (induction fs arbitrary: x)
  case Nil
  then show ?case by simp
next
  case (Cons a fs)
  from Cons.prems(1) obtain x1 where x1: "from_field rt a obj x = Inr x1"
    and rest: "from_fields rt fs obj x1 = Inr x'"
    by (auto split: sum.splits)
  show ?case
  proof (cases "f = a")
    case True
    obtain k dt opt dflt dv where f: "f = Field k dt opt dflt dv" by (cases f)
    with Cons.prems obtain p where "dt = Primitive p" "opt" by (cases dt) auto
    with f True x1 have "has_flag x1 k"
      using from_field_optional_primitive_sets [of rt k p dflt dv obj x x1] by simp
    with rest f show ?thesis by (auto dest: from_fields_keeps_flag)
  next
    case False
    with Cons.prems have "f \<in> set fs" by simp
    from Cons.IH [OF rest this Cons.prems(3,4)] show ?thesis .
  qed
qed

lemma from_dict_optional_primitive_always_set:
  "from_dict rt (Struct n fs) obj = Inr x \<Longrightarrow> f \<in> set fs \<Longrightarrow> optional f \<Longrightarrow>
   \<not> is_composite_type (field_data_type f) \<Longrightarrow> has_flag x (field_name f)"
  by (auto split: sum.splits option.splits dest: from_fields_optional_primitive_sets)



text \<open>
  Claim C3. Decoding leaves unset every optional field whose key is absent from the wire
  object. The emitted code does so for an optional field of composite type
  (\<open>from_field_optional_composite_absent\<close>); for an optional primitive field it assigns
  \<open>convert_from(validator, obj.get('f'))\<close> with no test, so whenever decoding returns an
  instance the field's flag is set (\<open>from_dict_optional_primitive_always_set\<close>). On the
  empty object, \<open>Limits\<close> does not decode at all, and \<open>Memo\<close> decodes with \<open>note\<close> set.
\<close>

theorem from_dict_absent_optional_primitive:
  "from_dict spec_runtime limits (PDict []) = Inl TypeMismatch
   \<and> from_dict spec_runtime memo (PDict []) = Inr memo_set
   \<and> has_flag memo_set ''note''"
  by (simp add: limits_def memo_def memo_set_def limit_field_def note_field_def
      spec_runtime_def struct_init_def setter_def)


section \<open>Encoding a struct\<close>

lemma distinct_map_Cons_neq:
  "distinct (map g (a # fs)) \<Longrightarrow> f \<in> set fs \<Longrightarrow> g f \<noteq> g a"
proof
  assume d: "distinct (map g (a # fs))" and f: "f \<in> set fs" and e: "g f = g a"
  from d have "g a \<notin> g ` set fs" by simp
  moreover from f have "g f \<in> g ` set fs" by (rule imageI)
  ultimately show False using e by simp
qed











lemma apply_op_unset_empty:
  "has_flag self m \<or> slot_value self m = PNone \<Longrightarrow>
   has_flag (apply_op rt self op) m \<or> slot_value (apply_op rt self op) m = PNone"
proof (cases op)
  case (SetOp f val)
  assume a: "has_flag self m \<or> slot_value self m = PNone"
  show ?thesis
  proof (cases "setter rt f self val")
    case (Inl e)
    with a SetOp show ?thesis by simp
  next
    case (Inr x)
    from setter_shape [OF Inr] a SetOp Inr show ?thesis by auto
  qed
qed (simp_all add: py_del_raises)

lemma run_ops_unset_empty:
  "has_flag self m \<or> slot_value self m = PNone \<Longrightarrow>
   has_flag (run_ops rt self ops) m \<or> slot_value (run_ops rt self ops) m = PNone"
  unfolding run_ops_def
proof (induction ops arbitrary: self)
  case Nil
  then show ?case by simp
next
  case (Cons op ops)
  from Cons.IH [OF apply_op_unset_empty [OF Cons.prems]] show ?case by simp
qed

lemma reachable_unset_slots_empty:
  "unset_slots_empty fs (run_ops rt (struct_init n) ops)"
  unfolding unset_slots_empty_def list_all_iff
  using run_ops_unset_empty [of "struct_init n" _ rt ops]
  by (simp add: struct_init_def)






section \<open>The round trip\<close>

lemma valid_slots_iff: "valid_slots fs x \<longleftrightarrow> (\<forall>f \<in> set fs. valid_slot f x)"
  by (induction fs) auto



lemma valid_tag_tagged: "valid_tag vs x \<Longrightarrow> \<exists>v \<in> set vs. is_tag (variant_name v) x"
proof (induction vs)
  case Nil
  then show ?case by simp
next
  case (Cons a vs)
  then show ?case by (cases a) auto
qed





























lemma valid_slots_required:
  "valid_slots fs x \<Longrightarrow> f \<in> set fs \<Longrightarrow> \<not> optional f \<Longrightarrow> has_flag x (field_name f)"
proof -
  assume a: "valid_slots fs x" "f \<in> set fs" "\<not> optional f"
  then have v: "valid_slot f x" by (simp add: valid_slots_iff)
  obtain m dt opt dflt dv where f: "f = Field m dt opt dflt dv" by (cases f)
  with v a(3) show ?thesis by (cases dt) (auto split: if_splits)
qed

lemma valid_instance_validate: "valid_instance T x \<Longrightarrow> validate T x"
proof (cases T)
  case (Struct n fs)
  assume v: "valid_instance T x"
  with Struct obtain c vv h where x: "x = StructObj c vv h"
    and vs: "valid_slots fs (StructObj c vv h)" by (cases x) auto
  from valid_slots_required [OF vs] x Struct show ?thesis
    by (auto simp: all_required_fields_def list_all_iff)
next
  case (Union n vs)
  assume v: "valid_instance T x"
  with Union obtain c t pv where x: "x = UnionObj c t pv"
    and vt: "valid_tag vs (UnionObj c t pv)" by (cases x) auto
  from valid_tag_tagged [OF vt] x Union show ?thesis by auto
qed

text \<open>
  The setter of a composite field calls \<open>val.validate()\<close> and drops the result, so an
  instance that passes \<open>validate()\<close> may hold one that does not: an \<open>Outer\<close> assigned a
  fresh \<open>Inner\<close>. Its wire object carries the unset required field of the \<open>Inner\<close> as
  \<open>null\<close>, and decodes to an instance in which that field is set.
\<close>

lemma unvalidated_nested_round_trip:
  "setter spec_runtime (Field ''inner'' (Composite inner_type) False False PNone)
      (struct_init ''Outer'') (struct_init ''Inner'') = Inr outer_set
   \<and> validate outer_type outer_set
   \<and> \<not> validate inner_type (struct_init ''Inner'')
   \<and> \<not> valid_instance outer_type outer_set
   \<and> to_dict spec_runtime outer_type outer_set =
        Inr (PDict [(''inner'', PDict [(''n'', PNone)])])
   \<and> from_dict spec_runtime outer_type (PDict [(''inner'', PDict [(''n'', PNone)])]) =
        Inr outer_decoded
   \<and> \<not> same_fields outer_type outer_set outer_decoded"
  by (simp add: outer_type_def inner_type_def outer_set_def outer_decoded_def struct_init_def
      setter_def spec_runtime_def all_required_fields_def)










section \<open>Classes with a super type\<close>

text \<open>The class of a type with no super type is the class of the sections above.\<close>

lemma init_fields_attrs:
  "init_fields n fs d =
     (\<lambda>a. case a of
        Value f \<Rightarrow> if f \<in> set (map field_name fs) then Some PNone else d a
      | Has C f \<Rightarrow> if C = n \<and> f \<in> set (map field_name fs) then Some (PBool False) else d a
      | Tag C \<Rightarrow> d a
      | Plain f \<Rightarrow> d a)"
proof (induction fs arbitrary: d)
  case Nil
  show ?case by (auto simp: fun_eq_iff split: attr.splits)
next
  case (Cons f fs)
  show ?case
    unfolding init_fields.simps Cons.IH
    by (auto simp: fun_eq_iff split: attr.splits)
qed

lemma class_init_is_struct_init:
  "class_init (StructType n None fs) Map.empty = struct_attrs n fs (struct_init n)"
  by (auto simp: init_fields_attrs struct_attrs_def struct_init_def fun_eq_iff
      split: attr.splits)

lemma read_flags_struct_attrs:
  "set gs \<subseteq> set fs \<Longrightarrow>
   read_flags n gs (struct_attrs n fs x) = Inr (map (\<lambda>f. PBool (has_flag x (field_name f))) gs)"
  by (induction gs) (auto simp: struct_attrs_def)

lemma class_validate_is_validate:
  "class_validate (StructType n None fs) (struct_attrs n fs (StructObj c v h)) =
     Inr (validate (Struct n fs) (StructObj c v h))"
proof -
  have "set (all_required_fields fs) \<subseteq> set fs" by (auto simp: all_required_fields_def)
  from read_flags_struct_attrs [OF this, of n "StructObj c v h"]
  show ?thesis by (simp add: list_all_iff)
qed

lemma find_first_distinct:
  "distinct (map g xs) \<Longrightarrow> x \<in> set xs \<Longrightarrow> find (\<lambda>y. g y = g x) xs = Some x"
proof (induction xs)
  case Nil
  then show ?case by simp
next
  case (Cons a xs)
  show ?case
  proof (cases "a = x")
    case True
    then show ?thesis by simp
  next
    case False
    with Cons.prems have x: "x \<in> set xs" by simp
    from distinct_map_Cons_neq [OF Cons.prems(1) x] have "g a \<noteq> g x" by simp
    with Cons.IH x Cons.prems(1) show ?thesis by simp
  qed
qed

lemma class_setter_is_setter:
  assumes dist: "distinct (map field_name fs)" and f: "f \<in> set fs"
  shows "class_setter rt (StructType n None fs) (field_name f) val
           (struct_attrs n fs (StructObj c v h)) =
         (case setter rt f (StructObj c v h) val of
            Inl e \<Rightarrow> Inl e
          | Inr x \<Rightarrow> Inr (struct_attrs n fs x))"
proof -
  from find_first_distinct [OF dist f]
  have fp: "find_property (StructType n None fs) (field_name f) = Some (n, f)" by simp
  have mem: "field_name f \<in> set (map field_name fs)" using f by simp
  show ?thesis
  proof (cases "setter_guard rt (field_data_type f) val")
    case (Some e)
    with fp show ?thesis by (simp add: class_setter_def setter_def)
  next
    case None
    have "(struct_attrs n fs (StructObj c v h))
             (Value (field_name f) \<mapsto> val, Has n (field_name f) \<mapsto> PBool True) =
          struct_attrs n fs (StructObj c (v(field_name f := val)) (h(field_name f := True)))"
      using mem by (auto simp: struct_attrs_def fun_eq_iff split: attr.splits)
    with fp None show ?thesis by (simp add: class_setter_def setter_def)
  qed
qed

lemma init_variants_attrs:
  "init_variants vs d =
     (\<lambda>a. case a of
        Value f \<Rightarrow> if f \<in> set (payload_names vs) then Some PNone else d a
      | Has C f \<Rightarrow> d a
      | Tag C \<Rightarrow> d a
      | Plain f \<Rightarrow> d a)"
proof (induction vs arbitrary: d)
  case Nil
  show ?case by (auto simp: fun_eq_iff split: attr.splits)
next
  case (Cons a vs)
  show ?case
  proof (cases a)
    case (SymbolField f)
    show ?thesis unfolding SymbolField init_variants.simps Cons.IH
      by (auto simp: fun_eq_iff split: attr.splits)
  next
    case (VariantField f T)
    show ?thesis unfolding VariantField init_variants.simps Cons.IH
      by (auto simp: fun_eq_iff split: attr.splits)
  qed
qed

lemma union_class_init_is_union_init:
  "union_class_init (UnionType n None vs) Map.empty = union_attrs n vs (union_init n)"
  by (auto simp: init_variants_attrs union_attrs_def union_init_def fun_eq_iff
      split: attr.splits)

lemma tag_value_eq: "tag_value (UnionObj c t pv) = PStr f \<longleftrightarrow> t = Some f"
  by (cases t) auto

lemma find_variant_root:
  "v \<in> set vs \<Longrightarrow> \<exists>w. find_variant (UnionType n None vs) (variant_name v) = Some (n, w)"
proof -
  assume "v \<in> set vs"
  then have "find (\<lambda>w. variant_name w = variant_name v) vs \<noteq> None"
    by (auto simp: find_None_iff)
  then show ?thesis by auto
qed

lemma class_is_tag_is_tag:
  "v \<in> set vs \<Longrightarrow>
   class_is_tag (UnionType n None vs) (variant_name v) (union_attrs n vs (UnionObj c t pv)) =
     Inr (is_tag (variant_name v) (UnionObj c t pv))"
  using find_variant_root [of v vs n]
  by (auto simp: class_is_tag_def union_attrs_def tag_value_eq)

lemma class_set_symbol_is_set_symbol:
  assumes dist: "distinct (map variant_name vs)" and f: "SymbolField f \<in> set vs"
  shows "class_set_symbol (UnionType n None vs) f (union_attrs n vs (UnionObj c t pv)) =
         Inr (union_attrs n vs (UnionObj c (Some f) pv))"
proof -
  from find_first_distinct [OF dist f]
  have "find_variant (UnionType n None vs) f = Some (n, SymbolField f)" by simp
  moreover have "(union_attrs n vs (UnionObj c t pv))(Tag n \<mapsto> PStr f) =
      union_attrs n vs (UnionObj c (Some f) pv)"
    by (auto simp: union_attrs_def fun_eq_iff split: attr.splits)
  ultimately show ?thesis by (simp add: class_set_symbol_def)
qed

lemma payload_names_iff: "f \<in> set (payload_names vs) \<longleftrightarrow> (\<exists>T. VariantField f T \<in> set vs)"
proof (induction vs)
  case Nil
  show ?case by simp
next
  case (Cons a vs)
  then show ?case by (cases a) auto
qed

lemma class_union_setter_is_union_setter:
  assumes dist: "distinct (map variant_name vs)" and f: "VariantField f T \<in> set vs"
  shows "class_union_setter (UnionType n None vs) f val (union_attrs n vs (UnionObj c t pv)) =
         (case union_setter f T (UnionObj c t pv) val of
            Inl e \<Rightarrow> Inl e
          | Inr u \<Rightarrow> Inr (union_attrs n vs u))"
proof -
  from find_first_distinct [OF dist f]
  have fv: "find_variant (UnionType n None vs) f = Some (n, VariantField f T)" by simp
  from f have mem: "f \<in> set (payload_names vs)" by (auto simp: payload_names_iff)
  have "(union_attrs n vs (UnionObj c t pv))(Value f \<mapsto> val, Tag n \<mapsto> PStr f) =
      union_attrs n vs (UnionObj c (Some f) (pv(f := val)))"
    using mem by (auto simp: union_attrs_def fun_eq_iff split: attr.splits)
  with fv show ?thesis by (simp add: class_union_setter_def)
qed

lemma class_union_validate_is_validate:
  "class_union_validate (UnionType n None vs) (union_attrs n vs (UnionObj c t pv)) =
     Inr (validate (Union n vs) (UnionObj c t pv))"
  by (cases t) (auto simp: union_attrs_def)

text \<open>
  A child class never has the flag of an inherited field under its own name: \<open>__init__\<close>
  and the setters write it under the name of the class that declares the field. With a
  required field in the parent, \<open>validate\<close> of the child raises on every instance that
  \<open>__init__\<close> and assignments produce.
\<close>

lemma init_fields_other_class:
  "C \<noteq> n \<Longrightarrow> init_fields n fs d (Has C a) = d (Has C a)"
  by (simp add: init_fields_attrs)

lemma init_fields_other_field:
  "a \<notin> set (map field_name fs) \<Longrightarrow> init_fields n fs d (Has C a) = d (Has C a)"
  by (simp add: init_fields_attrs)

lemma class_init_other_class:
  "C \<notin> set (class_names T) \<Longrightarrow> class_init T d (Has C a) = d (Has C a)"
  by (induction T d rule: class_init.induct) (auto simp: init_fields_other_class)

lemma find_property_class:
  "find_property T a = Some (C, f) \<Longrightarrow> C \<in> set (class_names T)"
  by (induction T a rule: find_property.induct) (auto split: option.splits)

lemma find_property_own:
  "find_property (StructType n (Some p) fs) a = Some (C, f) \<Longrightarrow>
   a \<notin> set (map field_name fs) \<Longrightarrow> find_property p a = Some (C, f)"
  by (auto split: option.splits simp: find_Some_iff)

lemma class_setter_keeps_missing:
  assumes s: "class_setter rt (StructType n (Some p) fs) a val d = Inr d'"
    and n: "n \<notin> set (class_names p)" and r: "r \<notin> set (map field_name fs)"
    and d: "d (Has n r) = None"
  shows "d' (Has n r) = None"
proof (cases "find_property (StructType n (Some p) fs) a")
  case None
  with s d show ?thesis by (auto simp: class_setter_def)
next
  case (Some cf)
  obtain C f where cf: "cf = (C, f)" by (cases cf)
  have "\<not> (C = n \<and> a = r)"
  proof
    assume e: "C = n \<and> a = r"
    with r have "a \<notin> set (map field_name fs)" by simp
    from find_property_own [OF Some [unfolded cf] this] have "find_property p a = Some (C, f)" .
    from find_property_class [OF this] e n show False by simp
  qed
  with s d Some cf show ?thesis
    by (auto simp: class_setter_def split: option.splits)
qed

lemma class_run_keeps_missing:
  "n \<notin> set (class_names p) \<Longrightarrow> r \<notin> set (map field_name fs) \<Longrightarrow> d (Has n r) = None \<Longrightarrow>
   class_run rt (StructType n (Some p) fs) d ops (Has n r) = None"
proof (induction ops arbitrary: d)
  case Nil
  then show ?case by simp
next
  case (Cons op ops)
  obtain a val where op: "op = (a, val)" by (cases op)
  show ?case
  proof (cases "class_setter rt (StructType n (Some p) fs) a val d")
    case (Inl e)
    with Cons op show ?thesis by simp
  next
    case (Inr d')
    from class_setter_keeps_missing [OF Inr Cons.prems] have "d' (Has n r) = None" .
    from Cons.IH [of d', OF Cons.prems(1,2) this] Inr op show ?thesis by simp
  qed
qed

lemma read_flags_missing_first:
  "d (Has n (field_name r)) = None \<Longrightarrow> read_flags n (r # rs) d = Inl AttributeError"
  by simp

lemma child_validate_raises:
  assumes req: "all_required_fields (all_fields p) = r # rs"
    and n: "n \<notin> set (class_names p)"
    and r: "field_name r \<notin> set (map field_name fs)"
  shows "class_validate (StructType n (Some p) fs)
           (class_run rt (StructType n (Some p) fs)
              (class_init (StructType n (Some p) fs) Map.empty) ops) = Inl AttributeError"
proof -
  let ?T = "StructType n (Some p) fs"
  have "class_init ?T Map.empty (Has n (field_name r)) = None"
    using n r by (simp add: init_fields_other_field class_init_other_class)
  from class_run_keeps_missing [where d = "class_init ?T Map.empty", OF n r this]
  have miss: "class_run rt ?T (class_init ?T Map.empty) ops (Has n (field_name r)) = None" .
  from req have "all_required_fields (all_fields ?T) = r # (rs @ all_required_fields fs)"
    by (simp add: all_required_fields_def)
  with miss show ?thesis by simp
qed

text \<open>
  Claim C6. \<open>validate()\<close> of every struct instance is a read that returns true if and
  only if the set flag of every required field is true. For a struct that extends no
  other type it is (\<open>validate_iff_required_set\<close>, \<open>class_validate_is_validate\<close>). For
  \<open>TeamQuotaInfo\<close>, which extends \<open>QuotaInfo\<close>, the emitted \<open>validate\<close> reads
  \<open>self.__has_quota\<close> under the child's name, an attribute no instance has: it raises
  \<open>AttributeError\<close> on the fresh instance and on the instance with both required fields
  assigned.
\<close>

theorem validate_inherited_required_raises:
  "class_setter spec_runtime team_quota_type ''quota'' (PInt 64000) team_quota_fresh =
     Inr (team_quota_fresh(Value ''quota'' \<mapsto> PInt 64000,
            Has ''QuotaInfo'' ''quota'' \<mapsto> PBool True))
   \<and> class_setter spec_runtime team_quota_type ''team'' (PInt 7)
        (team_quota_fresh(Value ''quota'' \<mapsto> PInt 64000,
           Has ''QuotaInfo'' ''quota'' \<mapsto> PBool True)) = Inr team_quota_set
   \<and> class_validate team_quota_type team_quota_fresh = Inl AttributeError
   \<and> class_validate team_quota_type team_quota_set = Inl AttributeError"
  by (simp add: team_quota_type_def quota_info_type_def quota_field_def class_setter_def
      spec_runtime_def team_quota_set_def team_quota_fresh_def all_required_fields_def)

text \<open>
  Two symbols declared in different classes of one chain use two \<open>__tag\<close> attributes:
  after \<open>set_a()\<close> and \<open>set_b()\<close> both are active.
\<close>

lemma two_tags_active:
  assumes a: "find_variant T a = Some (A, SymbolField a)"
    and b: "find_variant T b = Some (B, SymbolField b)"
    and ne: "A \<noteq> B"
  shows "class_set_symbol T a d = Inr (d(Tag A \<mapsto> PStr a))
     \<and> class_set_symbol T b (d(Tag A \<mapsto> PStr a)) = Inr (d(Tag A \<mapsto> PStr a, Tag B \<mapsto> PStr b))
     \<and> class_is_tag T a (d(Tag A \<mapsto> PStr a, Tag B \<mapsto> PStr b)) = Inr True
     \<and> class_is_tag T b (d(Tag A \<mapsto> PStr a, Tag B \<mapsto> PStr b)) = Inr True"
  using a b ne by (simp add: class_set_symbol_def class_is_tag_def)

text \<open>
  Claim C9. A union instance has at most one active tag, and setting a tag replaces the
  one selected before: after \<open>set_reject()\<close> and an assignment to a payload variant,
  \<open>is_reject()\<close> is false. For a union that extends no other type it is so
  (\<open>union_single_tag\<close>, \<open>class_is_tag_is_tag\<close>). For \<open>WritePolicy\<close>, which extends
  \<open>ConflictPolicy\<close>, \<open>set_reject\<close> writes the parent's \<open>__tag\<close> and the payload setter the
  child's: after both, \<open>is_reject()\<close> and \<open>is_update_if_matching_parent_rev()\<close> are both
  true.
\<close>

theorem union_two_tags_active:
  "class_set_symbol write_policy_type ''reject'' write_policy_fresh =
     Inr (write_policy_fresh(Tag ''ConflictPolicy'' \<mapsto> PStr ''reject''))
   \<and> class_union_setter write_policy_type ''update_if_matching_parent_rev'' rev_obj
        (write_policy_fresh(Tag ''ConflictPolicy'' \<mapsto> PStr ''reject'')) =
        Inr write_policy_both
   \<and> class_is_tag write_policy_type ''reject'' write_policy_both = Inr True
   \<and> class_is_tag write_policy_type ''update_if_matching_parent_rev'' write_policy_both =
        Inr True"
  by (simp add: write_policy_type_def base_policy_type_def write_policy_both_def
      class_set_symbol_def class_union_setter_def class_is_tag_def update_parent_rev_def
      rev_obj_def)

end
